theory Spec2Isabelle
  imports Complex_Main
begin

section \<open>Bayesian linear regression with evidence approximation\<close>

text \<open>
  A shallow embedding of \<^verbatim>\<open>src/bayesian_regression.py\<close> (class
  \<^verbatim>\<open>BayesianRegression\<close>).

  Conventions of the embedding.
  \<^item> A one-dimensional numpy array is a \<open>real list\<close>, a two-dimensional one the list of
    its rows. numpy's float64 arithmetic is idealised as arithmetic on \<open>real\<close>: rounding,
    \<^verbatim>\<open>inf\<close> and \<^verbatim>\<open>nan\<close> are not represented. Under numpy's default error
    state a float division by zero and a logarithm of a number that is not positive warn
    and yield \<^verbatim>\<open>inf\<close> or \<^verbatim>\<open>nan\<close>, they do not raise; in HOL \<open>x / 0 = 0\<close>,
    so where a divisor is zero the model's number says nothing about numpy's. The
    instances evaluated below never divide by zero.
  \<^item> The array operations are modelled on operands whose shapes agree; numpy's shape
    errors are not represented, and each theorem states the shapes it relies on.
  \<^item> Python 3 is assumed: \<^verbatim>\<open>/\<close> is true division.
  \<^item> What the class takes from outside is a parameter of the model: the library routine
    \<^verbatim>\<open>np.linalg.svd\<close>, the two draws of \<^verbatim>\<open>np.random.random(2)\<close>, and the
    binding of the module-level name \<^verbatim>\<open>Y\<close> that line 118 reads.
  \<^item> A method that assigns to \<^verbatim>\<open>self\<close> takes the instance and returns it updated;
    every \<^verbatim>\<open>raise\<close> is a value \<open>Inl e\<close> of the result.
\<close>

subsection \<open>Arrays\<close>

type_synonym vec = "real list"
type_synonym mat = "real list list"

definition ncols :: "mat \<Rightarrow> nat" where
  "ncols A = (case A of [] \<Rightarrow> 0 | r # _ \<Rightarrow> length r)"

definition col :: "mat \<Rightarrow> nat \<Rightarrow> vec" where
  "col A j = map (\<lambda>r. r ! j) A"

text \<open>\<^verbatim>\<open>A.T\<close> of a two-dimensional array with at least one row.\<close>

definition np_T :: "mat \<Rightarrow> mat" where
  "np_T A = map (col A) [0..<ncols A]"

text \<open>\<^verbatim>\<open>np.dot\<close> by the dimensions of its operands.\<close>

definition np_dot_vv :: "vec \<Rightarrow> vec \<Rightarrow> real" where
  "np_dot_vv a b = sum_list (map2 (*) a b)"

definition np_dot_mv :: "mat \<Rightarrow> vec \<Rightarrow> vec" where
  "np_dot_mv A b = map (\<lambda>r. np_dot_vv r b) A"

definition np_dot_mm :: "mat \<Rightarrow> mat \<Rightarrow> mat" where
  "np_dot_mm A B = map (\<lambda>r. map (\<lambda>j. np_dot_vv r (col B j)) [0..<ncols B]) A"

text \<open>\<^verbatim>\<open>np.diag\<close> of a one-dimensional array: the square matrix with it on the diagonal.\<close>

definition np_diag :: "vec \<Rightarrow> mat" where
  "np_diag a = map (\<lambda>i. map (\<lambda>j. if i = j then a ! i else 0) [0..<length a]) [0..<length a]"

definition np_outer :: "vec \<Rightarrow> vec \<Rightarrow> mat" where
  "np_outer a b = map (\<lambda>x. map (\<lambda>y. x * y) b) a"

definition np_ones :: "nat \<Rightarrow> vec" where
  "np_ones n = replicate n 1"

definition np_mean :: "vec \<Rightarrow> real" where
  "np_mean a = sum_list a / real (length a)"

text \<open>\<^verbatim>\<open>np.mean(A, axis = 0)\<close>: the mean of every column.\<close>

definition np_mean_axis0 :: "mat \<Rightarrow> vec" where
  "np_mean_axis0 A = map (\<lambda>j. np_mean (col A j)) [0..<ncols A]"

text \<open>Elementwise difference of two arrays of one shape.\<close>

definition sub_v :: "vec \<Rightarrow> vec \<Rightarrow> vec" where
  "sub_v a b = map2 (-) a b"

definition sub_m :: "mat \<Rightarrow> mat \<Rightarrow> mat" where
  "sub_m A B = map2 sub_v A B"

text \<open>
  Broadcasting: a scalar against every entry of an array, and a one-dimensional array
  against every row of a two-dimensional one.
\<close>

definition add_scalar_v :: "vec \<Rightarrow> real \<Rightarrow> vec" where
  "add_scalar_v a c = map (\<lambda>e. e + c) a"

definition sub_scalar_v :: "vec \<Rightarrow> real \<Rightarrow> vec" where
  "sub_scalar_v a c = map (\<lambda>e. e - c) a"

definition add_scalar_m :: "mat \<Rightarrow> real \<Rightarrow> mat" where
  "add_scalar_m A c = map (\<lambda>r. add_scalar_v r c) A"

definition mul_scalar_m :: "real \<Rightarrow> mat \<Rightarrow> mat" where
  "mul_scalar_m c A = map (map (\<lambda>e. c * e)) A"

definition sub_rows :: "mat \<Rightarrow> vec \<Rightarrow> mat" where
  "sub_rows A b = map (\<lambda>r. sub_v r b) A"

subsection \<open>Values, errors and the instance\<close>

text \<open>
  The constructor stores the Python integer \<^verbatim>\<open>0\<close> in \<^verbatim>\<open>alpha\<close>,
  \<^verbatim>\<open>beta\<close> and \<^verbatim>\<open>w_mu\<close>; fitting stores numpy floats and an array. The
  difference matters: \<^verbatim>\<open>1/0\<close> on Python integers raises, on numpy floats it does
  not.
\<close>

datatype scalar = PyInt int | Float real

datatype weights = WInt int | WVec vec

datatype pyval = PyFloat real | Arr1 vec | Arr2 mat

datatype pyerror =
    NameError string
  | AttributeError string
  | ValueError
  | ZeroDivisionError

fun scalar_val :: "scalar \<Rightarrow> real" where
  "scalar_val (PyInt i) = of_int i"
| "scalar_val (Float r) = r"

text \<open>
  The attributes of an instance. An attribute that has not been assigned yet is
  \<open>None\<close>: \<^verbatim>\<open>bias_term\<close> is assigned only under the test of line 34,
  \<^verbatim>\<open>w_precision\<close> only by \<^verbatim>\<open>fit\<close> (the constructor assigns the
  differently spelt \<^verbatim>\<open>w_precison\<close>), \<^verbatim>\<open>diag\<close> only by
  \<^verbatim>\<open>_weights_posterior_params\<close>.
\<close>

record model =
  self_mu_X :: vec
  self_X :: mat
  self_mu_Y :: real
  self_Y :: vec
  self_thresh :: real
  self_bias_term :: "real option"
  self_u :: mat
  self_d :: vec
  self_v :: mat
  self_alpha :: scalar
  self_beta :: scalar
  self_w_mu :: weights
  self_w_precison :: int
  self_w_precision :: "mat option"
  self_diag :: "vec option"

subsection \<open>The constructor\<close>

text \<open>
  \<^verbatim>\<open>__init__(self, X, Y, bias_term = False, thresh = 1e-5)\<close>, lines 26 to 46. The
  first argument stands for \<^verbatim>\<open>np.linalg.svd(., full_matrices = False)\<close>.
\<close>

definition init :: "(mat \<Rightarrow> mat \<times> vec \<times> mat) \<Rightarrow> mat \<Rightarrow> vec \<Rightarrow> bool \<Rightarrow> real \<Rightarrow> model" where
  "init svd X Y bias_term thresh =
    (let mu_X = np_mean_axis0 X;
         Xc = sub_m X (np_T (np_outer mu_X (np_ones (length X))));
         mu_Y = np_mean Y;
         Yc = sub_scalar_v Y (np_mean Y);
         (u, d, v) = svd Xc
     in \<lparr> self_mu_X = mu_X, self_X = Xc, self_mu_Y = mu_Y, self_Y = Yc,
          self_thresh = thresh,
          self_bias_term = (if bias_term then Some mu_Y else None),
          self_u = u, self_d = d, self_v = v,
          self_alpha = PyInt 0, self_beta = PyInt 0,
          self_w_mu = WInt 0, self_w_precison = 0,
          self_w_precision = None, self_diag = None \<rparr>)"

subsection \<open>The posterior of the weights\<close>

text \<open>
  \<^verbatim>\<open>_weights_posterior_params(self, alpha, beta)\<close>, lines 77 to 82. Line 77 adds the
  scalar \<^verbatim>\<open>alpha\<close> to an \<open>m \<times> m\<close> array, which numpy broadcasts to every
  entry. Line 78 assigns \<^verbatim>\<open>self.diag\<close>.
\<close>

definition weights_posterior_params :: "real \<Rightarrow> real \<Rightarrow> model \<Rightarrow> model \<times> (vec \<times> mat)" where
  "weights_posterior_params alpha beta self =
    (let precision = add_scalar_m (mul_scalar_m beta (np_dot_mm (np_T (self_X self)) (self_X self))) alpha;
         dg = map (\<lambda>di. di / (di ^ 2 + alpha / beta)) (self_d self);
         self1 = self \<lparr> self_diag := Some dg \<rparr>;
         p1 = np_dot_mm (np_T (self_v self1)) (np_diag dg);
         p2 = np_dot_mv (np_T (self_u self1)) (self_Y self1);
         w_mu = np_dot_mv p1 p2
     in (self1, (w_mu, precision)))"

subsection \<open>Evidence approximation\<close>

text \<open>
  One pass of the loop of \<^verbatim>\<open>_evidence_approx\<close>, in the three parts the source
  has. Lines 117 to 123: the posterior mean and the squared error. Line 118 reads the name
  \<^verbatim>\<open>Y\<close>, which is neither a parameter nor a local of the method, so Python
  resolves it at module level: \<open>gY\<close> is that binding, \<open>None\<close> when the module
  has none.
\<close>

definition iter_mean :: "vec option \<Rightarrow> model \<Rightarrow> real \<Rightarrow> real \<Rightarrow> pyerror + vec" where
  "iter_mean gY self alpha beta =
    (let dsq = map (\<lambda>di. di ^ 2) (self_d self);
         p1_mu = np_dot_mm (np_T (self_v self))
                   (np_diag (map2 (\<lambda>di q. di / (q + alpha / beta)) (self_d self) dsq))
     in case gY of
          None \<Rightarrow> Inl (NameError ''Y'')
        | Some Yg \<Rightarrow> Inr (np_dot_mv p1_mu (np_dot_mv (np_T (self_u self)) Yg)))"

definition iter_sqdErr :: "model \<Rightarrow> vec \<Rightarrow> real" where
  "iter_sqdErr self mu =
    (let error = sub_v (self_Y self) (np_dot_mv (self_X self) mu)
     in np_dot_vv error error)"

text \<open>Lines 125 to 141: the update of the two precisions, by method.\<close>

definition iter_update ::
  "string \<Rightarrow> nat \<Rightarrow> nat \<Rightarrow> vec \<Rightarrow> vec \<Rightarrow> real \<Rightarrow> real \<Rightarrow> real \<Rightarrow> pyerror + (real \<times> real)" where
  "iter_update method n m dsq mu sqdErr alpha beta =
    (if method = ''fixed-point'' then
       (let gamma = sum_list (map (\<lambda>q. beta * q / (beta * q + alpha)) dsq);
            alpha1 = gamma / np_dot_vv mu mu;
            beta1 = (real n - gamma) / sqdErr
        in Inr (alpha1, beta1))
     else if method = ''EM'' then
       (let alpha1 = real m / (np_dot_vv mu mu + sum_list (map (\<lambda>q. 1 / (beta * q + alpha)) dsq));
            beta1 = real n / (sqdErr + sum_list (map (\<lambda>q. q / (beta * q + alpha1)) dsq))
        in Inr (alpha1, beta1))
     else Inl ValueError)"

text \<open>Lines 145 and 146: the log-likelihood at the updated precisions.\<close>

definition iter_log_like :: "nat \<Rightarrow> nat \<Rightarrow> vec \<Rightarrow> vec \<Rightarrow> real \<Rightarrow> real \<Rightarrow> real \<Rightarrow> real" where
  "iter_log_like n m dsq mu sqdErr alpha beta =
    (let normaliser = real m / 2 * ln alpha + real n / 2 * ln beta
                      - 1 / 2 * sum_list (map (\<lambda>q. ln (beta * q + alpha)) dsq)
     in normaliser - alpha / 2 * np_dot_vv mu mu - beta / 2 * sqdErr)"

text \<open>The body of the loop up to line 146: the new precisions and the log-likelihood.\<close>

definition iter_body ::
  "vec option \<Rightarrow> string \<Rightarrow> model \<Rightarrow> real \<Rightarrow> real \<Rightarrow> pyerror + (real \<times> real \<times> real)" where
  "iter_body gY method self alpha beta =
    (let n = length (self_X self); m = ncols (self_X self);
         dsq = map (\<lambda>di. di ^ 2) (self_d self)
     in case iter_mean gY self alpha beta of
          Inl e \<Rightarrow> Inl e
        | Inr mu \<Rightarrow>
            (let sqdErr = iter_sqdErr self mu
             in case iter_update method n m dsq mu sqdErr alpha beta of
                  Inl e \<Rightarrow> Inl e
                | Inr (alpha1, beta1) \<Rightarrow>
                    Inr (alpha1, beta1, iter_log_like n m dsq mu sqdErr alpha1 beta1)))"

text \<open>
  The loop \<^verbatim>\<open>for i in range(max_iter)\<close>, lines 114 to 152. The first numeric
  argument counts the passes still to run, \<open>i\<close> is the loop variable,
  \<open>log_likes\<close> the history. The pass appends to the history and then, from the second
  pass on, compares its last two entries (\<^verbatim>\<open>log_likes[-1]\<close> and
  \<^verbatim>\<open>log_likes[-2]\<close>); \<^verbatim>\<open>break\<close> leaves the loop with the values of that pass.
\<close>

fun ea_loop ::
  "vec option \<Rightarrow> string \<Rightarrow> model \<Rightarrow> nat \<Rightarrow> nat \<Rightarrow> real \<Rightarrow> real \<Rightarrow> real list
     \<Rightarrow> pyerror + (real \<times> real \<times> real list)" where
  "ea_loop gY method self 0 i alpha beta log_likes = Inr (alpha, beta, log_likes)"
| "ea_loop gY method self (Suc r) i alpha beta log_likes =
    (case iter_body gY method self alpha beta of
       Inl e \<Rightarrow> Inl e
     | Inr (alpha1, beta1, log_like) \<Rightarrow>
         (let log_likes1 = log_likes @ [log_like]
          in if 1 \<le> i \<and> last log_likes1 - last (butlast log_likes1) < self_thresh self
             then Inr (alpha1, beta1, log_likes1)
             else ea_loop gY method self r (Suc i) alpha1 beta1 log_likes1))"

text \<open>
  \<^verbatim>\<open>_evidence_approx(self, max_iter, method)\<close>, lines 104 to 156. \<open>rnd\<close> is the
  pair drawn at line 107. \<^verbatim>\<open>range(max_iter)\<close> is empty for \<open>max_iter \<le> 0\<close>.
  The two assignments to \<^verbatim>\<open>self\<close> follow the loop, so an exception in the loop
  leaves the instance as it was.
\<close>

definition evidence_approx ::
  "vec option \<Rightarrow> real \<times> real \<Rightarrow> int \<Rightarrow> string \<Rightarrow> model \<Rightarrow> model \<times> (pyerror + unit)" where
  "evidence_approx gY rnd max_iter method self =
    (case ea_loop gY method self (nat max_iter) 0 (fst rnd) (snd rnd) [] of
       Inl e \<Rightarrow> (self, Inl e)
     | Inr (alpha, beta, log_likes) \<Rightarrow>
         (self \<lparr> self_alpha := Float alpha, self_beta := Float beta \<rparr>, Inr ()))"

subsection \<open>Fitting\<close>

text \<open>
  \<^verbatim>\<open>fit(self, evidence_approx_method, max_iter)\<close>, lines 182 to 194. Line 190 reads
  \<^verbatim>\<open>self.bias_term\<close>: an instance without that attribute raises
  \<^verbatim>\<open>AttributeError\<close> there, after lines 185 and 188 have assigned; where the
  attribute exists it holds the float \<^verbatim>\<open>mu_Y\<close>, which is never the object
  \<^verbatim>\<open>False\<close>.
\<close>

definition fit ::
  "vec option \<Rightarrow> real \<times> real \<Rightarrow> string \<Rightarrow> int \<Rightarrow> model
     \<Rightarrow> model \<times> (pyerror + (string \<rightharpoonup> pyval))" where
  "fit gY rnd evidence_approx_method max_iter self =
    (let parameters = Map.empty
     in case evidence_approx gY rnd max_iter evidence_approx_method self of
          (self1, Inl e) \<Rightarrow> (self1, Inl e)
        | (self1, Inr _) \<Rightarrow>
            (case weights_posterior_params
                    (scalar_val (self_alpha self1)) (scalar_val (self_beta self1)) self1 of
               (self2, (w_mu, precision)) \<Rightarrow>
                 (let self3 = self2 \<lparr> self_w_mu := WVec w_mu, self_w_precision := Some precision \<rparr>
                  in case self_bias_term self3 of
                       None \<Rightarrow> (self3, Inl (AttributeError ''bias_term''))
                     | Some b \<Rightarrow>
                         (self3,
                          Inr (parameters(''bias_term'' \<mapsto> PyFloat (self_mu_Y self3),
                                          ''weights'' \<mapsto> Arr1 w_mu,
                                          ''precision'' \<mapsto> Arr2 precision))))))"

subsection \<open>Prediction\<close>

text \<open>
  \<^verbatim>\<open>1/self.beta\<close> of line 220: true division, which raises on the Python integer
  zero and not on a numpy float.
\<close>

fun py_recip :: "scalar \<Rightarrow> pyerror + real" where
  "py_recip (PyInt i) = (if i = 0 then Inl ZeroDivisionError else Inr (1 / of_int i))"
| "py_recip (Float r) = Inr (1 / r)"

text \<open>
  Lines 218 and 219 of \<^verbatim>\<open>predict\<close>: the local \<^verbatim>\<open>D\<close>. Neither line can
  raise: the divisions are numpy's.
\<close>

definition predict_D :: "model \<Rightarrow> mat" where
  "predict_D self =
    (let d1 = map (\<lambda>di. 1 / (scalar_val (self_beta self) * di ^ 2 + scalar_val (self_alpha self)))
                (self_d self)
     in np_dot_mm (np_dot_mm (np_T (self_v self)) (np_diag d1)) (self_v self))"

text \<open>
  \<^verbatim>\<open>predict(self, x)\<close>, lines 216 to 221. The state it runs on is the instance and
  the caller's array \<open>x\<close>; both are returned. Line 216 binds the local name
  \<^verbatim>\<open>x\<close> to a new array (\<open>x1\<close> here) and no statement assigns to an attribute or
  writes into an array. With \<^verbatim>\<open>w_mu\<close> still the integer of the constructor,
  \<^verbatim>\<open>np.dot(x, 0)\<close> is the array \<^verbatim>\<open>x\<close> scaled. In line 220 the left operand
  \<^verbatim>\<open>1/self.beta\<close> is evaluated first.
\<close>

definition predict :: "mat \<Rightarrow> model \<Rightarrow> (model \<times> mat) \<times> (pyerror + (pyval \<times> mat))" where
  "predict x self =
    (let x1 = sub_rows x (self_mu_X self);
         mu_pred = (case self_w_mu self of
                      WInt k \<Rightarrow> Arr2 (add_scalar_m (mul_scalar_m (of_int k) x1) (self_mu_Y self))
                    | WVec w \<Rightarrow> Arr1 (add_scalar_v (np_dot_mv x1 w) (self_mu_Y self)));
         D = predict_D self
     in case py_recip (self_beta self) of
          Inl e \<Rightarrow> ((self, x), Inl e)
        | Inr ib \<Rightarrow>
            ((self, x),
             Inr (mu_pred, map (map (\<lambda>e. ib + e)) (np_dot_mm (np_dot_mm x1 D) (np_T x1)))))"

subsection \<open>The loop without its exit test\<close>

text \<open>
  To state when the loop stops, the passes are numbered from 1 and followed as if no
  \<^verbatim>\<open>break\<close> intervened: \<open>ea_traj \<dots> k\<close> is the pair of precisions after pass
  \<open>k\<close> together with the log-likelihood that pass appends (pass 0 is the state before
  the loop, with no log-likelihood). It is built from \<open>iter_body\<close>, the body of the
  source's loop.
\<close>

fun ea_traj :: "vec option \<Rightarrow> string \<Rightarrow> model \<Rightarrow> real \<Rightarrow> real \<Rightarrow> nat \<Rightarrow> real \<times> real \<times> real" where
  "ea_traj gY method self a0 b0 0 = (a0, b0, 0)"
| "ea_traj gY method self a0 b0 (Suc k) =
    (case ea_traj gY method self a0 b0 k of
       (alpha, beta, _) \<Rightarrow>
         (case iter_body gY method self alpha beta of
            Inr t \<Rightarrow> t
          | Inl _ \<Rightarrow> (alpha, beta, 0)))"

definition log_like_at :: "vec option \<Rightarrow> string \<Rightarrow> model \<Rightarrow> real \<Rightarrow> real \<Rightarrow> nat \<Rightarrow> real" where
  "log_like_at gY method self a0 b0 k = snd (snd (ea_traj gY method self a0 b0 k))"

text \<open>The history after \<open>K\<close> passes: the log-likelihoods of passes 1 to \<open>K\<close>.\<close>

definition log_likes_upto :: "vec option \<Rightarrow> string \<Rightarrow> model \<Rightarrow> real \<Rightarrow> real \<Rightarrow> nat \<Rightarrow> real list" where
  "log_likes_upto gY method self a0 b0 K =
     map (\<lambda>k. log_like_at gY method self a0 b0 (Suc k)) [0..<K]"

subsection \<open>The formulas of the specification\<close>

text \<open>
  The formulas below follow the words of the specification, entry by entry, and are
  compared with the code's. Section 4.4: the centred query, \<open>D = V\<^sup>T diag(1/(beta d\<^sub>k\<^sup>2 + alpha)) V\<close>,
  the mean \<open>x w_mu + mu_Y\<close> and the variance \<open>1/beta + x D x\<^sup>T\<close>.
\<close>

definition spec_D :: "model \<Rightarrow> nat \<Rightarrow> nat \<Rightarrow> real" where
  "spec_D self a b =
    (\<Sum>k\<leftarrow>[0..<length (self_d self)].
        self_v self ! k ! a
        * (1 / (scalar_val (self_beta self) * (self_d self ! k) ^ 2 + scalar_val (self_alpha self)))
        * self_v self ! k ! b)"

definition spec_centered :: "model \<Rightarrow> vec \<Rightarrow> nat \<Rightarrow> real" where
  "spec_centered self xr a = xr ! a - self_mu_X self ! a"

definition spec_mu_pred :: "model \<Rightarrow> vec \<Rightarrow> vec \<Rightarrow> real" where
  "spec_mu_pred self w xr =
    (\<Sum>a\<leftarrow>[0..<length (self_mu_X self)]. spec_centered self xr a * w ! a) + self_mu_Y self"

definition spec_var_pred :: "model \<Rightarrow> vec \<Rightarrow> vec \<Rightarrow> real" where
  "spec_var_pred self xi xj =
    1 / scalar_val (self_beta self)
    + (\<Sum>a\<leftarrow>[0..<length (self_mu_X self)]. \<Sum>b\<leftarrow>[0..<length (self_mu_X self)].
         spec_centered self xi a * spec_D self a b * spec_centered self xj b)"

text \<open>
  Section 4.2, step 1: the posterior mean of a pass from the centred response the
  instance stores.
\<close>

definition spec_iter_mean :: "model \<Rightarrow> real \<Rightarrow> real \<Rightarrow> vec" where
  "spec_iter_mean self alpha beta =
    np_dot_mv
      (np_dot_mm (np_T (self_v self))
         (np_diag (map (\<lambda>di. di / (di ^ 2 + alpha / beta)) (self_d self))))
      (np_dot_mv (np_T (self_u self)) (self_Y self))"

text \<open>Section 4.2, step 3: the EM update with both sums at the previous precisions.\<close>

definition spec_em_update :: "nat \<Rightarrow> nat \<Rightarrow> vec \<Rightarrow> vec \<Rightarrow> real \<Rightarrow> real \<Rightarrow> real \<Rightarrow> real \<times> real" where
  "spec_em_update n m dsq mu sqdErr alpha beta =
    (real m / (np_dot_vv mu mu + (\<Sum>q\<leftarrow>dsq. 1 / (beta * q + alpha))),
     real n / (sqdErr + (\<Sum>q\<leftarrow>dsq. q / (beta * q + alpha))))"

text \<open>Section 4.3: the precision \<open>beta X\<^sup>T X + alpha I\<close>.\<close>

definition spec_precision :: "model \<Rightarrow> real \<Rightarrow> real \<Rightarrow> mat" where
  "spec_precision self alpha beta =
    (let G = np_dot_mm (np_T (self_X self)) (self_X self)
     in map (\<lambda>i. map (\<lambda>j. beta * G ! i ! j + (if i = j then alpha else 0)) [0..<length G])
          [0..<length G])"

subsection \<open>Instances\<close>

text \<open>
  One feature: \<open>X = [[2], [2], [0], [0]]\<close>, centred \<open>[[1], [1], [-1], [-1]]\<close>, whose
  economy SVD is \<open>u = [[1/2], [1/2], [-1/2], [-1/2]]\<close>, \<open>d = [2]\<close>, \<open>v = [[1]]\<close>.
  Two features: \<open>X = [[2, 2], [2, 0], [0, 2], [0, 0]]\<close>, centred
  \<open>[[1, 1], [1, -1], [-1, 1], [-1, -1]]\<close> with orthogonal columns of norm 2, so
  \<open>u\<close> is half the centred array, \<open>d = [2, 2]\<close> and \<open>v\<close> the identity.
\<close>

definition svd_ex1 :: "mat \<Rightarrow> mat \<times> vec \<times> mat" where
  "svd_ex1 A = ([[1 / 2], [1 / 2], [- 1 / 2], [- 1 / 2]], [2], [[1]])"

definition model_ex1 :: "bool \<Rightarrow> model" where
  "model_ex1 b = init svd_ex1 [[2], [2], [0], [0]] [3, 1, - 1, 1] b (1 / 100000)"

definition svd_ex2 :: "mat \<Rightarrow> mat \<times> vec \<times> mat" where
  "svd_ex2 A =
    ([[1 / 2, 1 / 2], [1 / 2, - 1 / 2], [- 1 / 2, 1 / 2], [- 1 / 2, - 1 / 2]],
     [2, 2], [[1, 0], [0, 1]])"

definition model_ex2 :: "model" where
  "model_ex2 = init svd_ex2 [[2, 2], [2, 0], [0, 2], [0, 0]] [3, 1, - 1, 1] True (1 / 100000)"

text \<open>
  A constant feature: \<open>X = [[5], [5], [5], [5]]\<close> centres to the zero array, whose
  singular value is \<open>0\<close>. No division of the loop has a zero divisor on it.
\<close>

definition svd_ex3 :: "mat \<Rightarrow> mat \<times> vec \<times> mat" where
  "svd_ex3 A = ([[1], [0], [0], [0]], [0], [[1]])"

definition model_ex3 :: "model" where
  "model_ex3 = init svd_ex3 [[5], [5], [5], [5]] [2, 0, 2, 0] True (1 / 100000)"

text \<open>The two-feature instance after one pass of the default method.\<close>

definition fitted_ex2 :: "model" where
  "fitted_ex2 = fst (fit (Some [3, 1, - 1, 1]) (1, 1) ''fixed-point'' 1 model_ex2)"

section \<open>Properties\<close>

subsection \<open>Evaluation of the instances\<close>

lemmas np_defs =
  np_mean_axis0_def ncols_def col_def np_mean_def sub_m_def sub_v_def np_T_def np_outer_def
  np_ones_def add_scalar_v_def sub_scalar_v_def add_scalar_m_def mul_scalar_m_def sub_rows_def
  np_dot_vv_def np_dot_mv_def np_dot_mm_def np_diag_def

lemmas iter_defs =
  iter_body_def iter_mean_def iter_sqdErr_def iter_update_def

lemma model_ex1_eval:
  "model_ex1 b =
     \<lparr> self_mu_X = [1], self_X = [[1], [1], [- 1], [- 1]], self_mu_Y = 1,
       self_Y = [2, 0, - 2, 0], self_thresh = 1 / 100000,
       self_bias_term = (if b then Some 1 else None),
       self_u = [[1 / 2], [1 / 2], [- (1 / 2)], [- (1 / 2)]], self_d = [2],
       self_v = [[1]], self_alpha = PyInt 0, self_beta = PyInt 0,
       self_w_mu = WInt 0, self_w_precison = 0, self_w_precision = None,
       self_diag = None \<rparr>"
  by (simp add: model_ex1_def init_def svd_ex1_def np_defs Let_def)

lemma model_ex2_eval:
  "model_ex2 =
     \<lparr> self_mu_X = [1, 1], self_X = [[1, 1], [1, - 1], [- 1, 1], [- 1, - 1]],
       self_mu_Y = 1, self_Y = [2, 0, - 2, 0], self_thresh = 1 / 100000,
       self_bias_term = Some 1,
       self_u = [[1 / 2, 1 / 2], [1 / 2, - (1 / 2)], [- (1 / 2), 1 / 2], [- (1 / 2), - (1 / 2)]],
       self_d = [2, 2], self_v = [[1, 0], [0, 1]],
       self_alpha = PyInt 0, self_beta = PyInt 0,
       self_w_mu = WInt 0, self_w_precison = 0, self_w_precision = None,
       self_diag = None \<rparr>"
  by (simp add: model_ex2_def init_def svd_ex2_def np_defs Let_def)

lemma fit_ex2_eval:
  "fit (Some [3, 1, - 1, 1]) (1, 1) ''fixed-point'' 1 model_ex2 =
     (model_ex2 \<lparr> self_alpha := Float (5 / 2), self_beta := Float (15 / 26),
                  self_w_mu := WVec [12 / 25, 0],
                  self_w_precision := Some [[125 / 26, 5 / 2], [5 / 2, 125 / 26]],
                  self_diag := Some [6 / 25, 6 / 25] \<rparr>,
      Inr [''bias_term'' \<mapsto> PyFloat 1, ''weights'' \<mapsto> Arr1 [12 / 25, 0],
           ''precision'' \<mapsto> Arr2 [[125 / 26, 5 / 2], [5 / 2, 125 / 26]]])"
  by (simp add: fit_def evidence_approx_def iter_defs weights_posterior_params_def
        model_ex2_eval np_defs Let_def)

lemma fitted_ex2_eval:
  "fitted_ex2 =
     \<lparr> self_mu_X = [1, 1], self_X = [[1, 1], [1, - 1], [- 1, 1], [- 1, - 1]],
       self_mu_Y = 1, self_Y = [2, 0, - 2, 0], self_thresh = 1 / 100000,
       self_bias_term = Some 1,
       self_u = [[1 / 2, 1 / 2], [1 / 2, - (1 / 2)], [- (1 / 2), 1 / 2], [- (1 / 2), - (1 / 2)]],
       self_d = [2, 2], self_v = [[1, 0], [0, 1]],
       self_alpha = Float (5 / 2), self_beta = Float (15 / 26),
       self_w_mu = WVec [12 / 25, 0], self_w_precison = 0,
       self_w_precision = Some [[125 / 26, 5 / 2], [5 / 2, 125 / 26]],
       self_diag = Some [6 / 25, 6 / 25] \<rparr>"
  unfolding fitted_ex2_def fit_ex2_eval by (simp add: model_ex2_eval)

subsection \<open>The loop, one pass at a time\<close>

lemma ea_loop_pos:
  "0 < r \<Longrightarrow> ea_loop gY meth self r i alpha beta lls =
    (case iter_body gY meth self alpha beta of
       Inl e \<Rightarrow> Inl e
     | Inr (alpha1, beta1, log_like) \<Rightarrow>
         (let log_likes1 = lls @ [log_like]
          in if 1 \<le> i \<and> last log_likes1 - last (butlast log_likes1) < self_thresh self
             then Inr (alpha1, beta1, log_likes1)
             else ea_loop gY meth self (r - 1) (Suc i) alpha1 beta1 log_likes1))"
  by (cases r) (simp_all add: Let_def split: sum.splits prod.splits)

lemma iter_body_unbound: "iter_body None meth self alpha beta = Inl (NameError ''Y'')"
  by (simp add: iter_body_def iter_mean_def Let_def)

lemma iter_body_invalid:
  "meth \<noteq> ''EM'' \<Longrightarrow> meth \<noteq> ''fixed-point'' \<Longrightarrow>
     iter_body (Some Yg) meth self alpha beta = Inl ValueError"
  by (simp add: iter_body_def iter_mean_def iter_update_def Let_def)

lemma iter_body_valid:
  assumes "meth = ''EM'' \<or> meth = ''fixed-point''"
  shows "\<exists>t. iter_body (Some Yg) meth self alpha beta = Inr t"
  using assms by (auto simp add: iter_body_def iter_mean_def iter_update_def Let_def)

text \<open>
  C1. The claim: in every pass the posterior mean is \<open>V\<^sup>T diag(d / (dsq + alpha/beta)) U\<^sup>T Y\<close>
  with \<open>Y\<close> the centred response the instance stores. Line 118 of the source reads the
  bare name \<^verbatim>\<open>Y\<close>, not \<^verbatim>\<open>self.Y\<close>. Where the module binds no such name
  (the class imported from another program) the first pass raises \<^verbatim>\<open>NameError\<close>,
  whatever the method; where it binds one, the mean is computed from that array. On the
  one-feature instance: \<^verbatim>\<open>fit\<close> fails with the name unbound, and with the name bound
  to \<open>[1, 0, 0, 0]\<close> the mean of the first pass is \<open>[1/5]\<close>, where the claimed formula
  gives \<open>[4/5]\<close>, as does the same computation in \<^verbatim>\<open>_weights_posterior_params\<close>,
  which reads \<^verbatim>\<open>self.Y\<close> (line 80).
\<close>

theorem posterior_mean_reads_module_level_Y:
  "snd (fit None (1, 1) ''EM'' 100 (model_ex1 True)) = Inl (NameError ''Y'')
   \<and> iter_mean (Some [1, 0, 0, 0]) (model_ex1 True) 1 1 = Inr [1 / 5]
   \<and> spec_iter_mean (model_ex1 True) 1 1 = [4 / 5]
   \<and> fst (snd (weights_posterior_params 1 1 (model_ex1 True))) = [4 / 5]"
  by (simp add: fit_def evidence_approx_def ea_loop_pos iter_body_unbound model_ex1_eval
        iter_mean_def spec_iter_mean_def weights_posterior_params_def np_defs Let_def)

text \<open>
  C2. The claim: a model constructed with \<^verbatim>\<open>bias_term = False\<close> fits successfully
  and returns a dictionary without the key \<^verbatim>\<open>bias_term\<close>; the centring is as in
  the other case. The constructor assigns \<^verbatim>\<open>self.bias_term\<close> only when the argument
  is \<^verbatim>\<open>True\<close>, and line 190 reads the attribute: for every such model, whatever the
  other arguments, \<^verbatim>\<open>fit\<close> ends in an exception, the one of the loop or the
  \<^verbatim>\<open>AttributeError\<close> of line 190. The centring part of the claim holds. The last
  line is the one-feature instance under the default method.
\<close>

theorem fit_without_bias_term_raises:
  "snd (fit gY rnd meth max_iter (init svd X Y False thresh)) =
     (case ea_loop gY meth (init svd X Y False thresh) (nat max_iter) 0 (fst rnd) (snd rnd) [] of
        Inl e \<Rightarrow> Inl e
      | Inr r \<Rightarrow> Inl (AttributeError ''bias_term''))
   \<and> self_X (init svd X Y False thresh) = self_X (init svd X Y True thresh)
   \<and> self_Y (init svd X Y False thresh) = self_Y (init svd X Y True thresh)
   \<and> self_mu_X (init svd X Y False thresh) = self_mu_X (init svd X Y True thresh)
   \<and> self_mu_Y (init svd X Y False thresh) = self_mu_Y (init svd X Y True thresh)
   \<and> snd (fit (Some [3, 1, - 1, 1]) (1, 1) ''fixed-point'' 1 (model_ex1 False))
       = Inl (AttributeError ''bias_term'')"
proof -
  have "snd (fit (Some [3, 1, - 1, 1]) (1, 1) ''fixed-point'' 1 (model_ex1 False))
       = Inl (AttributeError ''bias_term'')"
    by (simp add: fit_def evidence_approx_def iter_defs weights_posterior_params_def
          model_ex1_eval np_defs Let_def)
  then show ?thesis
    by (simp add: fit_def evidence_approx_def weights_posterior_params_def init_def Let_def
          split: sum.splits prod.splits)
qed

text \<open>
  C3. The claim: in the EM branch both updates are evaluated at the precisions of the
  previous pass. Line 137 assigns \<^verbatim>\<open>alpha\<close> and line 138 then reads it, so the sum
  in the update of \<^verbatim>\<open>beta\<close> uses the new \<^verbatim>\<open>alpha\<close>. On the one-feature
  instance, one pass from \<open>alpha = beta = 1\<close>: the mean is \<open>[4/5]\<close>, the squared error
  \<open>104/25\<close>, the code's update gives \<open>beta = 2725/3359\<close>, the claimed formula \<open>25/31\<close>.
\<close>

theorem em_beta_update_reads_new_alpha:
  "fst (evidence_approx (Some [3, 1, - 1, 1]) (1, 1) 1 ''EM'' (model_ex1 True)) =
     (model_ex1 True) \<lparr> self_alpha := Float (25 / 21), self_beta := Float (2725 / 3359) \<rparr>
   \<and> iter_mean (Some [3, 1, - 1, 1]) (model_ex1 True) 1 1 = Inr [4 / 5]
   \<and> iter_sqdErr (model_ex1 True) [4 / 5] = 104 / 25
   \<and> iter_update ''EM'' 4 1 [4] [4 / 5] (104 / 25) 1 1 = Inr (25 / 21, 2725 / 3359)
   \<and> spec_em_update 4 1 [4] [4 / 5] (104 / 25) 1 1 = (25 / 21, 25 / 31)"
  by (simp add: evidence_approx_def iter_defs spec_em_update_def model_ex1_eval np_defs Let_def)

text \<open>
  C4. The claim: the posterior precision is \<open>beta X\<^sup>T X + alpha I\<close>, \<open>alpha\<close> on
  the diagonal only, for every number of features. Line 77 adds the scalar to the whole
  array. On the two-feature instance with \<open>alpha = beta = 1\<close>, where \<open>X\<^sup>T X\<close> is
  \<open>[[4, 0], [0, 4]]\<close>: the code returns \<open>[[5, 1], [1, 5]]\<close>, the claimed formula
  \<open>[[5, 0], [0, 5]]\<close>; the precision \<^verbatim>\<open>fit\<close> stores has the same off-diagonal
  entries \<open>alpha = 5/2\<close>. The mean the same call returns, \<open>[4/5, 0]\<close>, is the
  posterior mean of the claimed precision and not of the returned one: the claimed
  precision maps it to \<open>beta X\<^sup>T Y = [4, 0]\<close>, the returned one to \<open>[4, 4/5]\<close>.
\<close>

theorem precision_adds_alpha_to_every_entry:
  "snd (snd (weights_posterior_params 1 1 model_ex2)) = [[5, 1], [1, 5]]
   \<and> spec_precision model_ex2 1 1 = [[5, 0], [0, 5]]
   \<and> self_w_precision fitted_ex2 = Some [[125 / 26, 5 / 2], [5 / 2, 125 / 26]]
   \<and> self_alpha fitted_ex2 = Float (5 / 2)
   \<and> fst (snd (weights_posterior_params 1 1 model_ex2)) = [4 / 5, 0]
   \<and> np_dot_mv (np_T (self_X model_ex2)) (self_Y model_ex2) = [4, 0]
   \<and> np_dot_mv [[5, 0], [0, 5]] [4 / 5, 0] = [4, 0]
   \<and> np_dot_mv [[5, 1], [1, 5]] [4 / 5, 0] = [4, 4 / 5]"
  by (simp add: weights_posterior_params_def spec_precision_def model_ex2_eval fitted_ex2_eval
        np_defs Let_def)

lemma model_ex3_eval:
  "model_ex3 =
     \<lparr> self_mu_X = [5], self_X = [[0], [0], [0], [0]], self_mu_Y = 1,
       self_Y = [1, - 1, 1, - 1], self_thresh = 1 / 100000,
       self_bias_term = Some 1,
       self_u = [[1], [0], [0], [0]], self_d = [0], self_v = [[1]],
       self_alpha = PyInt 0, self_beta = PyInt 0,
       self_w_mu = WInt 0, self_w_precison = 0, self_w_precision = None,
       self_diag = None \<rparr>"
  by (simp add: model_ex3_def init_def svd_ex3_def np_defs Let_def)

text \<open>
  C5. The claim: with a method other than \<^verbatim>\<open>"EM"\<close> and \<^verbatim>\<open>"fixed-point"\<close>,
  \<^verbatim>\<open>fit\<close> fails with the invalid-parameter error at once, before any work of a
  pass. The test of the method is the last branch of the chain of lines 125 to 141,
  inside the loop and after lines 117 to 123. So with \<^verbatim>\<open>Y\<close> unbound the error is
  the \<^verbatim>\<open>NameError\<close> of line 118, raised by the computation of the posterior mean,
  and with \<^verbatim>\<open>max_iter = 0\<close> the loop body never runs and the method is never
  tested: on the one-feature instance, built with \<^verbatim>\<open>bias_term = True\<close>,
  \<^verbatim>\<open>fit\<close> then returns the dictionary.
\<close>

theorem fit_invalid_method_counterexample:
  "snd (fit None (1 / 2, 1 / 2) ''gibbs'' 1 (model_ex1 True)) = Inl (NameError ''Y'')
   \<and> snd (fit (Some [3, 1, - 1, 1]) (1 / 2, 1 / 2) ''gibbs'' 0 (model_ex1 True)) =
       Inr [''bias_term'' \<mapsto> PyFloat 1, ''weights'' \<mapsto> Arr1 [4 / 5],
            ''precision'' \<mapsto> Arr2 [[5 / 2]]]"
  by (simp add: fit_def evidence_approx_def ea_loop_pos iter_body_unbound
        weights_posterior_params_def model_ex1_eval np_defs Let_def)

text \<open>
  C5, amended: with such a method and at least one pass to run, \<^verbatim>\<open>fit\<close> fails in
  the first pass of the loop and leaves the instance as it was. That pass computes its
  posterior mean before it tests the method: when that computation raises, its exception
  is the one \<^verbatim>\<open>fit\<close> raises, and otherwise \<^verbatim>\<open>fit\<close> raises the
  \<^verbatim>\<open>ValueError\<close> of line 141. The name \<^verbatim>\<open>Y\<close>, where it is bound, holds an
  array of the length of the data.
\<close>

theorem fit_invalid_method:
  assumes "meth \<noteq> ''EM''" and "meth \<noteq> ''fixed-point''"
    and "0 < max_iter"
    and "\<forall>Yg. gY = Some Yg \<longrightarrow> length Yg = length (self_X self)"
  shows "fit gY rnd meth max_iter self =
           (self, case iter_mean gY self (fst rnd) (snd rnd) of
                    Inl e \<Rightarrow> Inl e
                  | Inr mu \<Rightarrow> Inl ValueError)"
  using assms
  by (simp add: fit_def evidence_approx_def ea_loop_pos iter_body_def iter_update_def Let_def
        split: sum.splits)

text \<open>
  On the one-feature instance, with 100 passes allowed and the start \<open>(1/2, 1/2)\<close>:
  with \<^verbatim>\<open>Y\<close> unbound the posterior mean of the first pass raises and \<^verbatim>\<open>fit\<close>
  raises \<^verbatim>\<open>NameError\<close>; with \<^verbatim>\<open>Y\<close> bound the mean is \<open>[4/5]\<close> and
  \<^verbatim>\<open>fit\<close> raises \<^verbatim>\<open>ValueError\<close>.
\<close>

theorem fit_invalid_method_witness:
  "''gibbs'' \<noteq> ''EM'' \<and> ''gibbs'' \<noteq> ''fixed-point'' \<and> (0 :: int) < 100
   \<and> length [3, 1, - 1, 1 :: real] = length (self_X (model_ex1 True))
   \<and> iter_mean None (model_ex1 True) (1 / 2) (1 / 2) = Inl (NameError ''Y'')
   \<and> fit None (1 / 2, 1 / 2) ''gibbs'' 100 (model_ex1 True)
       = (model_ex1 True, Inl (NameError ''Y''))
   \<and> iter_mean (Some [3, 1, - 1, 1]) (model_ex1 True) (1 / 2) (1 / 2) = Inr [4 / 5]
   \<and> fit (Some [3, 1, - 1, 1]) (1 / 2, 1 / 2) ''gibbs'' 100 (model_ex1 True)
       = (model_ex1 True, Inl ValueError)"
proof -
  have m1: "''gibbs'' \<noteq> ''EM''" and m2: "''gibbs'' \<noteq> ''fixed-point''"
    and it: "(0 :: int) < 100"
    by simp_all
  have len: "length [3, 1, - 1, 1 :: real] = length (self_X (model_ex1 True))"
    by (simp add: model_ex1_eval)
  have h0: "\<forall>Yg. (None :: vec option) = Some Yg \<longrightarrow> length Yg = length (self_X (model_ex1 True))"
    by simp
  have h1: "\<forall>Yg. Some [3, 1, - 1, 1 :: real] = Some Yg
              \<longrightarrow> length Yg = length (self_X (model_ex1 True))"
    using len by simp
  have e0: "iter_mean None (model_ex1 True) (1 / 2) (1 / 2) = Inl (NameError ''Y'')"
    by (simp add: iter_mean_def Let_def)
  have e1: "iter_mean (Some [3, 1, - 1, 1]) (model_ex1 True) (1 / 2) (1 / 2) = Inr [4 / 5]"
    by (simp add: iter_mean_def model_ex1_eval np_defs Let_def)
  have r0: "fit None (1 / 2, 1 / 2) ''gibbs'' 100 (model_ex1 True)
              = (model_ex1 True, Inl (NameError ''Y''))"
    using fit_invalid_method [OF m1 m2 it h0, of "(1 / 2, 1 / 2)"] by (simp add: e0)
  have r1: "fit (Some [3, 1, - 1, 1]) (1 / 2, 1 / 2) ''gibbs'' 100 (model_ex1 True)
              = (model_ex1 True, Inl ValueError)"
    using fit_invalid_method [OF m1 m2 it h1, of "(1 / 2, 1 / 2)"] by (simp add: e1)
  from len e0 e1 r0 r1 show ?thesis by simp
qed

text \<open>
  In particular, with the name \<^verbatim>\<open>Y\<close> bound the exception is the
  \<^verbatim>\<open>ValueError\<close>.
\<close>

lemma fit_invalid_method_bound:
  assumes "meth \<noteq> ''EM''" and "meth \<noteq> ''fixed-point''"
    and "0 < max_iter"
  shows "fit (Some Yg) rnd meth max_iter self = (self, Inl ValueError)"
  using assms by (simp add: fit_def evidence_approx_def ea_loop_pos iter_body_invalid)

text \<open>
  With no pass to run the method plays no part in \<^verbatim>\<open>fit\<close>.
\<close>

lemma fit_no_pass_ignores_method:
  assumes "max_iter \<le> 0"
  shows "fit gY rnd meth max_iter self = fit gY rnd meth' max_iter self"
  using assms by (simp add: fit_def evidence_approx_def)

text \<open>
  C6. The claim: on a freshly constructed model \<^verbatim>\<open>predict\<close> raises a not-fitted
  error. The class has no such check and no such error. What stops \<^verbatim>\<open>predict\<close> is
  line 220: \<^verbatim>\<open>self.beta\<close> is still the Python integer \<^verbatim>\<open>0\<close> of the
  constructor, and \<^verbatim>\<open>1/self.beta\<close> raises \<^verbatim>\<open>ZeroDivisionError\<close>.
\<close>

theorem predict_unfitted_counterexample:
  "snd (predict [[3]] (model_ex1 True)) = Inl ZeroDivisionError"
  by (simp add: predict_def model_ex1_eval Let_def)

text \<open>
  C6, amended: on every freshly constructed model and every query whose rows have one
  entry per feature, \<^verbatim>\<open>predict\<close> returns no result: it raises
  \<^verbatim>\<open>ZeroDivisionError\<close>.
\<close>

theorem predict_unfitted_zero_division:
  assumes "list_all (\<lambda>r. length r = length (self_mu_X (init svd X Y bias_term thresh))) x"
  shows "snd (predict x (init svd X Y bias_term thresh)) = Inl ZeroDivisionError"
  by (simp add: predict_def init_def Let_def split: prod.splits)

theorem predict_unfitted_zero_division_witness:
  "list_all (\<lambda>r. length r = length (self_mu_X (init svd_ex2 [[2, 2], [2, 0], [0, 2], [0, 0]]
                                        [3, 1, - 1, 1] False (1 / 100000))))
     [[3, 1], [1, 2]]
   \<and> snd (predict [[3, 1], [1, 2]]
           (init svd_ex2 [[2, 2], [2, 0], [0, 2], [0, 0]] [3, 1, - 1, 1] False (1 / 100000)))
       = Inl ZeroDivisionError"
proof -
  have sh: "list_all (\<lambda>r. length r = length (self_mu_X (init svd_ex2 [[2, 2], [2, 0], [0, 2], [0, 0]]
                                        [3, 1, - 1, 1] False (1 / 100000))))
     [[3, 1], [1, 2]]"
    by (simp add: init_def svd_ex2_def np_defs Let_def)
  from sh predict_unfitted_zero_division [OF sh] show ?thesis by simp
qed

lemma predict_state: "fst (predict x self) = (self, x)"
  by (simp add: predict_def Let_def split: sum.splits)

text \<open>
  C9. The claim: \<^verbatim>\<open>predict\<close> changes no attribute of the instance and does not
  modify the caller's array, so repeated calls with the same input return the same
  result. The instance and the array come back as they went in, whether the call returns
  or raises, and a second call on what the first left returns what the first returned.
\<close>

theorem predict_frame:
  "fst (predict x self) = (self, x)
   \<and> predict (snd (fst (predict x self))) (fst (fst (predict x self))) = predict x self"
  by (simp add: predict_state)

text \<open>
  C10. The claim: whenever \<^verbatim>\<open>fit\<close> raises, \<^verbatim>\<open>alpha\<close>, \<^verbatim>\<open>beta\<close>,
  \<^verbatim>\<open>w_mu\<close> and \<^verbatim>\<open>w_precision\<close> keep their values, the assignments coming
  only after the loop has completed. The \<^verbatim>\<open>AttributeError\<close> of line 190, raised
  for every model built without \<^verbatim>\<open>bias_term\<close> (see C2), comes after the
  assignments of lines 155, 156 and 188: on the one-feature instance built that way,
  \<^verbatim>\<open>fit\<close> raises and the four attributes have changed.
\<close>

theorem fit_attribute_error_after_writes:
  "snd (fit (Some [3, 1, - 1, 1]) (1, 1) ''EM'' 1 (model_ex1 False))
     = Inl (AttributeError ''bias_term'')
   \<and> self_alpha (model_ex1 False) = PyInt 0
   \<and> self_beta (model_ex1 False) = PyInt 0
   \<and> self_w_mu (model_ex1 False) = WInt 0
   \<and> self_w_precision (model_ex1 False) = None
   \<and> self_alpha (fst (fit (Some [3, 1, - 1, 1]) (1, 1) ''EM'' 1 (model_ex1 False)))
       = Float (25 / 21)
   \<and> self_beta (fst (fit (Some [3, 1, - 1, 1]) (1, 1) ''EM'' 1 (model_ex1 False)))
       = Float (2725 / 3359)
   \<and> self_w_mu (fst (fit (Some [3, 1, - 1, 1]) (1, 1) ''EM'' 1 (model_ex1 False)))
       = WVec [9156 / 12515]
   \<and> self_w_precision (fst (fit (Some [3, 1, - 1, 1]) (1, 1) ''EM'' 1 (model_ex1 False)))
       = Some [[312875 / 70539]]"
  by (simp add: fit_def evidence_approx_def iter_defs weights_posterior_params_def
        model_ex1_eval np_defs Let_def)

text \<open>
  What does hold: an exception of the evidence-approximation loop, that is any exception
  of \<^verbatim>\<open>fit\<close> other than the \<^verbatim>\<open>AttributeError\<close> of line 190, leaves the
  instance exactly as it was before the call.
\<close>

lemma fit_loop_error_keeps_state:
  assumes "snd (fit gY rnd meth max_iter self) = Inl e"
    and "e \<noteq> AttributeError ''bias_term''"
  shows "fst (fit gY rnd meth max_iter self) = self"
  using assms
  by (auto simp add: fit_def evidence_approx_def weights_posterior_params_def Let_def
        split: sum.splits prod.splits option.splits)

lemma fit_loop_error_keeps_state_ex1:
  "snd (fit (Some [3, 1, - 1, 1]) (1, 1) ''gibbs'' 100 (model_ex1 False)) = Inl ValueError
   \<and> fst (fit (Some [3, 1, - 1, 1]) (1, 1) ''gibbs'' 100 (model_ex1 False)) = model_ex1 False"
proof -
  have r: "snd (fit (Some [3, 1, - 1, 1]) (1, 1) ''gibbs'' 100 (model_ex1 False)) = Inl ValueError"
    by (simp add: fit_def evidence_approx_def ea_loop_pos iter_body_invalid)
  have ne: "ValueError \<noteq> AttributeError ''bias_term''"
    by simp
  from r fit_loop_error_keeps_state [OF r ne] show ?thesis by simp
qed

subsection \<open>The exit of the loop\<close>

lemma ea_traj_Suc:
  assumes "meth = ''EM'' \<or> meth = ''fixed-point''"
  shows "iter_body (Some Yg) meth self
           (fst (ea_traj (Some Yg) meth self a0 b0 k))
           (fst (snd (ea_traj (Some Yg) meth self a0 b0 k)))
         = Inr (ea_traj (Some Yg) meth self a0 b0 (Suc k))"
proof -
  obtain a b l where T: "ea_traj (Some Yg) meth self a0 b0 k = (a, b, l)"
    by (cases "ea_traj (Some Yg) meth self a0 b0 k") auto
  obtain t where B: "iter_body (Some Yg) meth self a b = Inr t"
    using iter_body_valid [OF assms] by blast
  show ?thesis by (simp add: T B)
qed

declare ea_traj.simps [simp del]

lemma log_likes_upto_0: "log_likes_upto gY meth self a0 b0 0 = []"
  by (simp add: log_likes_upto_def)

lemma log_likes_upto_Suc:
  "log_likes_upto gY meth self a0 b0 (Suc K) =
     log_likes_upto gY meth self a0 b0 K @ [log_like_at gY meth self a0 b0 (Suc K)]"
  by (simp add: log_likes_upto_def)

lemma last_log_likes_upto:
  "1 \<le> i \<Longrightarrow> last (log_likes_upto gY meth self a0 b0 i) = log_like_at gY meth self a0 b0 i"
  by (cases i) (simp_all add: log_likes_upto_def)

text \<open>
  The loop entered at loop variable \<open>i\<close>, after \<open>i\<close> passes without exit, with
  \<open>r\<close> passes left: it ends after some pass \<open>K\<close>, no pass before \<open>K\<close> met the
  exit test, and it ends early only on the exit test.
\<close>

lemma ea_loop_from:
  assumes valid: "meth = ''EM'' \<or> meth = ''fixed-point''"
  shows "\<exists>K. i \<le> K \<and> K \<le> i + r \<and>
     ea_loop (Some Yg) meth self r i
        (fst (ea_traj (Some Yg) meth self a0 b0 i))
        (fst (snd (ea_traj (Some Yg) meth self a0 b0 i)))
        (log_likes_upto (Some Yg) meth self a0 b0 i)
      = Inr (fst (ea_traj (Some Yg) meth self a0 b0 K),
             fst (snd (ea_traj (Some Yg) meth self a0 b0 K)),
             log_likes_upto (Some Yg) meth self a0 b0 K)
     \<and> (\<forall>j. i < j \<and> j < K \<and> 2 \<le> j \<longrightarrow>
            \<not> log_like_at (Some Yg) meth self a0 b0 j
               - log_like_at (Some Yg) meth self a0 b0 (j - 1) < self_thresh self)
     \<and> (K < i + r \<longrightarrow> i < K \<and> 2 \<le> K \<and>
            log_like_at (Some Yg) meth self a0 b0 K
              - log_like_at (Some Yg) meth self a0 b0 (K - 1) < self_thresh self)"
proof (induction r arbitrary: i)
  case 0
  show ?case by (rule exI [of _ i]) simp
next
  case (Suc r)
  let ?T = "ea_traj (Some Yg) meth self a0 b0"
  let ?L = "log_like_at (Some Yg) meth self a0 b0"
  let ?H = "log_likes_upto (Some Yg) meth self a0 b0"
  have body: "iter_body (Some Yg) meth self (fst (?T i)) (fst (snd (?T i))) = Inr (?T (Suc i))"
    by (rule ea_traj_Suc [OF valid])
  obtain a1 b1 l1 where T1: "?T (Suc i) = (a1, b1, l1)"
    by (cases "?T (Suc i)") auto
  have l1: "l1 = ?L (Suc i)"
    by (simp add: log_like_at_def T1)
  have cond: "(1 \<le> i \<and> last (?H i @ [?L (Suc i)]) - last (butlast (?H i @ [?L (Suc i)]))
                  < self_thresh self)
              = (1 \<le> i \<and> ?L (Suc i) - ?L i < self_thresh self)"
    by (cases "1 \<le> i") (simp_all add: last_log_likes_upto)
  have unfold: "ea_loop (Some Yg) meth self (Suc r) i (fst (?T i)) (fst (snd (?T i))) (?H i)
      = (if 1 \<le> i \<and> ?L (Suc i) - ?L i < self_thresh self
         then Inr (a1, b1, ?H (Suc i))
         else ea_loop (Some Yg) meth self r (Suc i) a1 b1 (?H (Suc i)))"
    using cond by (simp add: body T1 l1 log_likes_upto_Suc Let_def)
  show ?case
  proof (cases "1 \<le> i \<and> ?L (Suc i) - ?L i < self_thresh self")
    case True
    then have "ea_loop (Some Yg) meth self (Suc r) i (fst (?T i)) (fst (snd (?T i))) (?H i)
               = Inr (a1, b1, ?H (Suc i))"
      by (simp add: unfold del: ea_loop.simps)
    with True T1 show ?thesis
      by (intro exI [of _ "Suc i"]) auto
  next
    case False
    then have step: "ea_loop (Some Yg) meth self (Suc r) i (fst (?T i)) (fst (snd (?T i))) (?H i)
               = ea_loop (Some Yg) meth self r (Suc i) (fst (?T (Suc i))) (fst (snd (?T (Suc i))))
                   (?H (Suc i))"
      by (auto simp add: unfold T1 simp del: ea_loop.simps)
    from Suc.IH [of "Suc i"] obtain K where K:
      "Suc i \<le> K" "K \<le> Suc i + r"
      "ea_loop (Some Yg) meth self r (Suc i) (fst (?T (Suc i))) (fst (snd (?T (Suc i))))
          (?H (Suc i))
        = Inr (fst (?T K), fst (snd (?T K)), ?H K)"
      "\<forall>j. Suc i < j \<and> j < K \<and> 2 \<le> j \<longrightarrow> \<not> ?L j - ?L (j - 1) < self_thresh self"
      "K < Suc i + r \<longrightarrow> Suc i < K \<and> 2 \<le> K \<and> ?L K - ?L (K - 1) < self_thresh self"
      by blast
    have nofire: "\<forall>j. i < j \<and> j < K \<and> 2 \<le> j \<longrightarrow> \<not> ?L j - ?L (j - 1) < self_thresh self"
    proof (intro allI impI)
      fix j assume j: "i < j \<and> j < K \<and> 2 \<le> j"
      show "\<not> ?L j - ?L (j - 1) < self_thresh self"
      proof (cases "j = Suc i")
        case True
        with j False show ?thesis by auto
      next
        case False
        with j K(4) show ?thesis by auto
      qed
    qed
    show ?thesis
      using K step nofire by (intro exI [of _ K]) auto
  qed
qed

lemma ea_loop_from_start:
  assumes valid: "meth = ''EM'' \<or> meth = ''fixed-point''"
  shows "\<exists>K. K \<le> max_iter \<and>
     ea_loop (Some Yg) meth self max_iter 0 a0 b0 []
      = Inr (fst (ea_traj (Some Yg) meth self a0 b0 K),
             fst (snd (ea_traj (Some Yg) meth self a0 b0 K)),
             log_likes_upto (Some Yg) meth self a0 b0 K)
     \<and> (\<forall>j. 2 \<le> j \<and> j < K \<longrightarrow>
            \<not> log_like_at (Some Yg) meth self a0 b0 j
               - log_like_at (Some Yg) meth self a0 b0 (j - 1) < self_thresh self)
     \<and> (K < max_iter \<longrightarrow> 2 \<le> K \<and>
            log_like_at (Some Yg) meth self a0 b0 K
              - log_like_at (Some Yg) meth self a0 b0 (K - 1) < self_thresh self)"
  using ea_loop_from [OF valid, of 0 max_iter Yg self a0 b0]
  by (auto simp add: ea_traj.simps log_likes_upto_0)

text \<open>
  C7. The claim: the loop stops after pass \<open>i \<ge> 2\<close> exactly when
  \<open>log_like[i] - log_like[i - 1] < thresh\<close>, and otherwise runs \<open>max_iter\<close> passes.
  The claim names no condition, and the loop has a third way to end: an exception in its
  first pass. On the constant-feature instance with 100 passes allowed, the loop ends
  in the first pass with the \<^verbatim>\<open>ValueError\<close> of line 141 when the method is neither
  of the two, and with the \<^verbatim>\<open>NameError\<close> of line 118 when the name \<^verbatim>\<open>Y\<close> is
  unbound; \<^verbatim>\<open>_evidence_approx\<close> then raises, and no pass has been completed.
\<close>

theorem ea_loop_raises_counterexample:
  "ea_loop (Some [2, 0, 2, 0]) ''gibbs'' model_ex3 100 0 (1 / 2) (1 / 2) [] = Inl ValueError
   \<and> snd (evidence_approx (Some [2, 0, 2, 0]) (1 / 2, 1 / 2) 100 ''gibbs'' model_ex3)
       = Inl ValueError
   \<and> ea_loop None ''EM'' model_ex3 100 0 (1 / 2) (1 / 2) [] = Inl (NameError ''Y'')
   \<and> snd (evidence_approx None (1 / 2, 1 / 2) 100 ''EM'' model_ex3) = Inl (NameError ''Y'')"
  by (simp add: evidence_approx_def ea_loop_pos iter_body_unbound iter_body_invalid)

text \<open>
  C7, amended: with the method \<^verbatim>\<open>"EM"\<close> or \<^verbatim>\<open>"fixed-point"\<close> and the name
  \<^verbatim>\<open>Y\<close> bound to an array of the length of the data, the loop stops after pass
  \<open>i \<ge> 2\<close> exactly when \<open>log_like[i] - log_like[i - 1] < thresh\<close>, a comparison with a
  direction, and otherwise runs \<open>max_iter\<close> passes. The loop returns after some number
  \<open>K \<le> max_iter\<close> of passes, with the precisions of pass \<open>K\<close> and the history of
  passes 1 to \<open>K\<close>; no pass \<open>j\<close> with \<open>2 \<le> j < K\<close> met the test; if
  \<open>K < max_iter\<close> then \<open>K \<ge> 2\<close> and pass \<open>K\<close> met it. These three facts determine
  \<open>K\<close>. With a threshold that is not negative, every decrease of the log-likelihood
  meets the test, so the history before the last pass never decreases.
\<close>

theorem ea_loop_stopping_rule:
  assumes valid: "meth = ''EM'' \<or> meth = ''fixed-point''"
    and shape: "length Yg = length (self_X self)"
  shows "\<exists>K. K \<le> max_iter \<and>
     ea_loop (Some Yg) meth self max_iter 0 a0 b0 []
      = Inr (fst (ea_traj (Some Yg) meth self a0 b0 K),
             fst (snd (ea_traj (Some Yg) meth self a0 b0 K)),
             log_likes_upto (Some Yg) meth self a0 b0 K)
     \<and> (\<forall>j. 2 \<le> j \<and> j < K \<longrightarrow>
            \<not> log_like_at (Some Yg) meth self a0 b0 j
               - log_like_at (Some Yg) meth self a0 b0 (j - 1) < self_thresh self)
     \<and> (K < max_iter \<longrightarrow> 2 \<le> K \<and>
            log_like_at (Some Yg) meth self a0 b0 K
              - log_like_at (Some Yg) meth self a0 b0 (K - 1) < self_thresh self)
     \<and> (0 \<le> self_thresh self \<longrightarrow>
          (\<forall>j. 2 \<le> j \<and> j < K \<longrightarrow>
             log_like_at (Some Yg) meth self a0 b0 (j - 1)
               \<le> log_like_at (Some Yg) meth self a0 b0 j))"
proof -
  from ea_loop_from_start [OF valid, of max_iter Yg self a0 b0]
  obtain K where K: "K \<le> max_iter"
    "ea_loop (Some Yg) meth self max_iter 0 a0 b0 []
      = Inr (fst (ea_traj (Some Yg) meth self a0 b0 K),
             fst (snd (ea_traj (Some Yg) meth self a0 b0 K)),
             log_likes_upto (Some Yg) meth self a0 b0 K)"
    "\<forall>j. 2 \<le> j \<and> j < K \<longrightarrow>
            \<not> log_like_at (Some Yg) meth self a0 b0 j
               - log_like_at (Some Yg) meth self a0 b0 (j - 1) < self_thresh self"
    "K < max_iter \<longrightarrow> 2 \<le> K \<and>
            log_like_at (Some Yg) meth self a0 b0 K
              - log_like_at (Some Yg) meth self a0 b0 (K - 1) < self_thresh self"
    by blast
  have "0 \<le> self_thresh self \<longrightarrow>
          (\<forall>j. 2 \<le> j \<and> j < K \<longrightarrow>
             log_like_at (Some Yg) meth self a0 b0 (j - 1)
               \<le> log_like_at (Some Yg) meth self a0 b0 j)"
  proof (intro impI allI)
    fix j assume th: "0 \<le> self_thresh self" and j: "2 \<le> j \<and> j < K"
    from K(3) j have "\<not> log_like_at (Some Yg) meth self a0 b0 j
               - log_like_at (Some Yg) meth self a0 b0 (j - 1) < self_thresh self"
      by blast
    with th show "log_like_at (Some Yg) meth self a0 b0 (j - 1)
               \<le> log_like_at (Some Yg) meth self a0 b0 j"
      by linarith
  qed
  with K show ?thesis by blast
qed

text \<open>
  On the constant-feature instance, EM from \<open>alpha = beta = 1/2\<close> reaches
  \<open>alpha = 1/2\<close>, \<open>beta = 1\<close> in its first pass and stays there: both passes have
  log-likelihood \<open>-2\<close>, the difference \<open>0\<close> is below the threshold, and of 100 passes
  allowed the loop runs two. With one pass allowed it runs that pass.
\<close>

lemma ea_loop_ex3:
  "ea_loop (Some [2, 0, 2, 0]) ''EM'' model_ex3 100 0 (1 / 2) (1 / 2) []
     = Inr (1 / 2, 1, [- 2, - 2])"
  by (simp add: ea_loop_pos iter_defs iter_log_like_def model_ex3_eval np_defs Let_def)

lemma ea_loop_ex3_one_pass:
  "ea_loop (Some [2, 0, 2, 0]) ''EM'' model_ex3 1 0 (1 / 2) (1 / 2) [] = Inr (1 / 2, 1, [- 2])"
  by (simp add: ea_loop_pos iter_defs iter_log_like_def model_ex3_eval np_defs Let_def)

theorem ea_loop_stopping_rule_witness:
  "(''EM'' = ''EM'' \<or> ''EM'' = ''fixed-point'')
   \<and> length [2, 0, 2, 0 :: real] = length (self_X model_ex3)
   \<and> (\<exists>K. K = 2 \<and>
        ea_loop (Some [2, 0, 2, 0]) ''EM'' model_ex3 100 0 (1 / 2) (1 / 2) []
          = Inr (fst (ea_traj (Some [2, 0, 2, 0]) ''EM'' model_ex3 (1 / 2) (1 / 2) K),
                 fst (snd (ea_traj (Some [2, 0, 2, 0]) ''EM'' model_ex3 (1 / 2) (1 / 2) K)),
                 log_likes_upto (Some [2, 0, 2, 0]) ''EM'' model_ex3 (1 / 2) (1 / 2) K)
        \<and> log_like_at (Some [2, 0, 2, 0]) ''EM'' model_ex3 (1 / 2) (1 / 2) K
            - log_like_at (Some [2, 0, 2, 0]) ''EM'' model_ex3 (1 / 2) (1 / 2) (K - 1)
            < self_thresh model_ex3)
   \<and> ea_loop (Some [2, 0, 2, 0]) ''EM'' model_ex3 100 0 (1 / 2) (1 / 2) []
       = Inr (1 / 2, 1, [- 2, - 2])
   \<and> (\<exists>K. K = 1 \<and>
        ea_loop (Some [2, 0, 2, 0]) ''EM'' model_ex3 1 0 (1 / 2) (1 / 2) []
          = Inr (fst (ea_traj (Some [2, 0, 2, 0]) ''EM'' model_ex3 (1 / 2) (1 / 2) K),
                 fst (snd (ea_traj (Some [2, 0, 2, 0]) ''EM'' model_ex3 (1 / 2) (1 / 2) K)),
                 log_likes_upto (Some [2, 0, 2, 0]) ''EM'' model_ex3 (1 / 2) (1 / 2) K))
   \<and> ea_loop (Some [2, 0, 2, 0]) ''EM'' model_ex3 1 0 (1 / 2) (1 / 2) [] = Inr (1 / 2, 1, [- 2])"
proof -
  let ?T = "ea_traj (Some [2, 0, 2, 0]) ''EM'' model_ex3 (1 / 2) (1 / 2)"
  let ?L = "log_like_at (Some [2, 0, 2, 0]) ''EM'' model_ex3 (1 / 2) (1 / 2)"
  let ?H = "log_likes_upto (Some [2, 0, 2, 0]) ''EM'' model_ex3 (1 / 2) (1 / 2)"
  have valid: "''EM'' = ''EM'' \<or> ''EM'' = ''fixed-point''"
    by simp
  have shape: "length [2, 0, 2, 0 :: real] = length (self_X model_ex3)"
    by (simp add: model_ex3_eval)
  from ea_loop_stopping_rule [OF valid shape, of 100 "1 / 2" "1 / 2"]
  obtain K where K: "K \<le> 100"
    "ea_loop (Some [2, 0, 2, 0]) ''EM'' model_ex3 100 0 (1 / 2) (1 / 2) []
      = Inr (fst (?T K), fst (snd (?T K)), ?H K)"
    "K < 100 \<longrightarrow> 2 \<le> K \<and> ?L K - ?L (K - 1) < self_thresh model_ex3"
    by blast
  from K(2) have "?H K = [- 2, - 2]"
    by (simp add: ea_loop_ex3)
  then have "length (?H K) = 2"
    by simp
  then have K2: "K = 2"
    by (simp add: log_likes_upto_def)
  from ea_loop_stopping_rule [OF valid shape, of 1 "1 / 2" "1 / 2"]
  obtain J where J: "J \<le> 1"
    "ea_loop (Some [2, 0, 2, 0]) ''EM'' model_ex3 1 0 (1 / 2) (1 / 2) []
      = Inr (fst (?T J), fst (snd (?T J)), ?H J)"
    by blast
  from J(2) [unfolded ea_loop_ex3_one_pass] have "?H J = [- 2]"
    by simp
  then have "length (?H J) = 1"
    by simp
  then have J1: "J = 1"
    by (simp add: log_likes_upto_def)
  have first: "\<exists>K. K = 2 \<and>
        ea_loop (Some [2, 0, 2, 0]) ''EM'' model_ex3 100 0 (1 / 2) (1 / 2) []
          = Inr (fst (?T K), fst (snd (?T K)), ?H K)
        \<and> ?L K - ?L (K - 1) < self_thresh model_ex3"
    using K K2 by (intro exI [of _ 2]) simp
  have second: "\<exists>K. K = 1 \<and>
        ea_loop (Some [2, 0, 2, 0]) ''EM'' model_ex3 1 0 (1 / 2) (1 / 2) []
          = Inr (fst (?T K), fst (snd (?T K)), ?H K)"
    using J J1 by (intro exI [of _ 1]) simp
  from valid shape first second ea_loop_ex3 ea_loop_ex3_one_pass show ?thesis
    by (intro conjI)
qed

text \<open>
  The three facts determine the number of passes: two numbers that both satisfy them
  for the same sequence of log-likelihoods are equal.
\<close>

lemma stopping_pass_unique:
  fixes L :: "nat \<Rightarrow> real"
  assumes K: "K \<le> N" "\<forall>j. 2 \<le> j \<and> j < K \<longrightarrow> \<not> L j - L (j - 1) < th"
      "K < N \<longrightarrow> 2 \<le> K \<and> L K - L (K - 1) < th"
    and K': "K' \<le> N" "\<forall>j. 2 \<le> j \<and> j < K' \<longrightarrow> \<not> L j - L (j - 1) < th"
      "K' < N \<longrightarrow> 2 \<le> K' \<and> L K' - L (K' - 1) < th"
  shows "K = K'"
proof (rule ccontr)
  assume ne: "K \<noteq> K'"
  show False
  proof (cases "K < K'")
    case True
    with K'(1) have "K < N" by simp
    with K(3) have "2 \<le> K \<and> L K - L (K - 1) < th" by simp
    with True K'(2) show False by blast
  next
    case False
    with ne have lt: "K' < K" by simp
    with K(1) have "K' < N" by simp
    with K'(3) have "2 \<le> K' \<and> L K' - L (K' - 1) < th" by simp
    with lt K(2) show False by blast
  qed
qed

subsection \<open>Arrays by their entries\<close>

text \<open>
  A well-shaped array is the table of its entries, and the array operations act on
  tables entry by entry.
\<close>

lemma vec_tab: "length a = n \<Longrightarrow> a = map (\<lambda>i. a ! i) [0..<n]"
  by (auto simp add: map_nth)

lemma mat_tab:
  assumes "length A = r" and "list_all (\<lambda>row. length row = c) A"
  shows "A = map (\<lambda>i. map (\<lambda>j. A ! i ! j) [0..<c]) [0..<r]"
proof (rule nth_equalityI)
  show "length A = length (map (\<lambda>i. map (\<lambda>j. A ! i ! j) [0..<c]) [0..<r])"
    using assms by simp
next
  fix i assume i: "i < length A"
  then have "length (A ! i) = c"
    using assms(2) by (simp add: list_all_length)
  then have "A ! i = map (\<lambda>j. A ! i ! j) [0..<c]"
    by (rule vec_tab)
  then show "A ! i = map (\<lambda>i. map (\<lambda>j. A ! i ! j) [0..<c]) [0..<r] ! i"
    using i assms(1) by simp
qed

lemma dot_tab:
  "np_dot_vv (map f [0..<n]) (map g [0..<n]) = (\<Sum>i\<leftarrow>[0..<n]. f i * g i)"
  by (simp add: np_dot_vv_def zip_map_map zip_same_conv_map comp_def)

lemma ncols_tab: "0 < r \<Longrightarrow> ncols (map (\<lambda>i. map (\<lambda>j. f i j) [0..<c]) [0..<r]) = c"
  by (simp add: ncols_def upt_conv_Cons)

lemma col_tab:
  "j < c \<Longrightarrow> col (map (\<lambda>i. map (\<lambda>j. f i j) [0..<c]) [0..<r]) j = map (\<lambda>i. f i j) [0..<r]"
  by (simp add: col_def)

lemma np_T_tab:
  "0 < r \<Longrightarrow> np_T (map (\<lambda>i. map (\<lambda>j. f i j) [0..<c]) [0..<r])
     = map (\<lambda>j. map (\<lambda>i. f i j) [0..<r]) [0..<c]"
  by (simp add: np_T_def ncols_tab col_tab)

lemma np_dot_mm_tab:
  "0 < n \<Longrightarrow>
   np_dot_mm (map (\<lambda>i. map (\<lambda>k. f i k) [0..<n]) [0..<r])
             (map (\<lambda>k. map (\<lambda>j. g k j) [0..<c]) [0..<n])
   = map (\<lambda>i. map (\<lambda>j. (\<Sum>k\<leftarrow>[0..<n]. f i k * g k j)) [0..<c]) [0..<r]"
  by (simp add: np_dot_mm_def ncols_tab col_tab dot_tab)

lemma np_diag_tab:
  "np_diag (map f [0..<n]) = map (\<lambda>i. map (\<lambda>j. if i = j then f i else 0) [0..<n]) [0..<n]"
  by (simp add: np_diag_def)

lemma sum_list_delta:
  "k < n \<Longrightarrow> (\<Sum>i\<leftarrow>[0..<n]. f i * (if i = k then g i else 0)) = f k * (g k :: real)"
proof -
  assume k: "k < n"
  have "(\<Sum>i\<leftarrow>[0..<n]. f i * (if i = k then g i else 0)) = (\<Sum>i\<in>{0..<n}. f i * (if i = k then g i else 0))"
    by (simp add: interv_sum_list_conv_sum_set_nat)
  also have "\<dots> = (\<Sum>i\<in>{0..<n}. if i = k then f i * g i else 0)"
    by (rule sum.cong) auto
  also have "\<dots> = f k * g k"
    using k by (simp add: sum.delta)
  finally show ?thesis .
qed

lemma sum_list_swap_mult:
  "(\<Sum>b\<leftarrow>[0..<m]. (\<Sum>a\<leftarrow>[0..<n]. f a b) * g b) = (\<Sum>a\<leftarrow>[0..<n]. \<Sum>b\<leftarrow>[0..<m]. f a b * (g b :: real))"
proof -
  have "(\<Sum>b\<leftarrow>[0..<m]. (\<Sum>a\<leftarrow>[0..<n]. f a b) * g b) = (\<Sum>b\<in>{0..<m}. (\<Sum>a\<in>{0..<n}. f a b) * g b)"
    by (simp add: interv_sum_list_conv_sum_set_nat)
  also have "\<dots> = (\<Sum>b\<in>{0..<m}. \<Sum>a\<in>{0..<n}. f a b * g b)"
    by (simp add: sum_distrib_right)
  also have "\<dots> = (\<Sum>a\<in>{0..<n}. \<Sum>b\<in>{0..<m}. f a b * g b)"
    by (rule sum.swap)
  also have "\<dots> = (\<Sum>a\<leftarrow>[0..<n]. \<Sum>b\<leftarrow>[0..<m]. f a b * g b)"
    by (simp add: interv_sum_list_conv_sum_set_nat)
  finally show ?thesis .
qed

lemma sub_v_tab: "sub_v (map f [0..<n]) (map g [0..<n]) = map (\<lambda>i. f i - g i) [0..<n]"
  by (simp add: sub_v_def zip_map_map zip_same_conv_map comp_def)

lemma np_dot_mm_diag_tab:
  "0 < n \<Longrightarrow>
   np_dot_mm (map (\<lambda>i. map (\<lambda>k. f i k) [0..<n]) [0..<r]) (np_diag (map g [0..<n]))
   = map (\<lambda>i. map (\<lambda>k. f i k * g k) [0..<n]) [0..<r]"
  by (simp add: np_diag_tab np_dot_mm_tab sum_list_delta cong: map_cong)

lemma map_nth_fun: "map (\<lambda>i. f (xs ! i)) [0..<length xs] = map f xs"
proof -
  have "map f (map (\<lambda>i. xs ! i) [0..<length xs]) = map f xs"
    by (simp only: map_nth)
  then show ?thesis by (simp add: comp_def)
qed

lemma predict_D_tab:
  assumes m: "length (self_mu_X self) = m"
    and d: "self_d self \<noteq> []"
    and vl: "length (self_v self) = length (self_d self)"
    and vr: "list_all (\<lambda>r. length r = m) (self_v self)"
  shows "predict_D self = map (\<lambda>a. map (\<lambda>b. spec_D self a b) [0..<m]) [0..<m]"
proof -
  define K where "K = length (self_d self)"
  define V where "V = (\<lambda>k a. self_v self ! k ! a)"
  define G where "G = (\<lambda>k. 1 / (scalar_val (self_beta self) * (self_d self ! k) ^ 2
                              + scalar_val (self_alpha self)))"
  have K: "0 < K" using d by (simp add: K_def)
  have v_eq: "self_v self = map (\<lambda>k. map (\<lambda>a. V k a) [0..<m]) [0..<K]"
    unfolding V_def using mat_tab [OF _ vr, of K] vl by (simp add: K_def)
  have d1_eq: "map (\<lambda>di. 1 / (scalar_val (self_beta self) * di ^ 2 + scalar_val (self_alpha self)))
                 (self_d self) = map G [0..<K]"
    unfolding G_def K_def by (rule map_nth_fun [symmetric])
  have "predict_D self =
          np_dot_mm (np_dot_mm (np_T (map (\<lambda>k. map (\<lambda>a. V k a) [0..<m]) [0..<K])) (np_diag (map G [0..<K])))
            (map (\<lambda>k. map (\<lambda>a. V k a) [0..<m]) [0..<K])"
    unfolding predict_D_def Let_def d1_eq using v_eq by simp
  also have "\<dots> = map (\<lambda>a. map (\<lambda>b. (\<Sum>k\<leftarrow>[0..<K]. V k a * G k * V k b)) [0..<m]) [0..<m]"
    using K by (simp add: np_T_tab np_dot_mm_diag_tab np_dot_mm_tab)
  also have "\<dots> = map (\<lambda>a. map (\<lambda>b. spec_D self a b) [0..<m]) [0..<m]"
    by (simp add: spec_D_def V_def G_def K_def)
  finally show ?thesis .
qed

lemma dot_tab_vec:
  assumes "length w = n"
  shows "np_dot_vv (map f [0..<n]) w = (\<Sum>i\<leftarrow>[0..<n]. f i * w ! i)"
proof -
  have "np_dot_vv (map f [0..<n]) (map (\<lambda>i. w ! i) [0..<n]) = (\<Sum>i\<leftarrow>[0..<n]. f i * w ! i)"
    by (rule dot_tab)
  moreover have "map (\<lambda>i. w ! i) [0..<n] = w"
    using assms by (auto simp add: map_nth)
  ultimately show ?thesis by simp
qed

lemma sub_rows_tab:
  assumes mu: "length mu = m" and xr: "list_all (\<lambda>r. length r = m) x"
  shows "sub_rows x mu = map (\<lambda>i. map (\<lambda>a. x ! i ! a - mu ! a) [0..<m]) [0..<length x]"
proof -
  have x_eq: "x = map (\<lambda>i. map (\<lambda>a. x ! i ! a) [0..<m]) [0..<length x]"
    by (rule mat_tab [OF refl xr])
  have mu_eq: "mu = map (\<lambda>a. mu ! a) [0..<m]"
    by (rule vec_tab [OF mu])
  have "sub_rows x mu = sub_rows (map (\<lambda>i. map (\<lambda>a. x ! i ! a) [0..<m]) [0..<length x]) (map (\<lambda>a. mu ! a) [0..<m])"
    using x_eq mu_eq by simp
  also have "\<dots> = map (\<lambda>i. map (\<lambda>a. x ! i ! a - mu ! a) [0..<m]) [0..<length x]"
    by (simp add: sub_rows_def sub_v_tab)
  finally show ?thesis .
qed

text \<open>
  What a call of \<^verbatim>\<open>fit\<close> that reaches line 188 leaves in the instance: float
  precisions and a weight vector with one entry per column of \<^verbatim>\<open>v\<close>; the data,
  the means and the decomposition are untouched.
\<close>

lemma fit_fitted:
  assumes "snd (fit gY rnd meth max_iter self) = Inr p"
  shows "\<exists>a b w. self_alpha (fst (fit gY rnd meth max_iter self)) = Float a
           \<and> self_beta (fst (fit gY rnd meth max_iter self)) = Float b
           \<and> self_w_mu (fst (fit gY rnd meth max_iter self)) = WVec w
           \<and> length w = ncols (self_v self)
           \<and> self_mu_X (fst (fit gY rnd meth max_iter self)) = self_mu_X self
           \<and> self_mu_Y (fst (fit gY rnd meth max_iter self)) = self_mu_Y self
           \<and> self_d (fst (fit gY rnd meth max_iter self)) = self_d self
           \<and> self_v (fst (fit gY rnd meth max_iter self)) = self_v self"
  using assms
  by (auto simp add: fit_def evidence_approx_def weights_posterior_params_def Let_def
        np_dot_mv_def np_dot_mm_def np_T_def
        split: sum.splits prod.splits option.splits)

text \<open>
  The two arrays \<^verbatim>\<open>predict\<close> builds on well-shaped operands, entry by entry:
  the mean of line 217 and the variance of line 220.
\<close>

lemma predict_mean_entries:
  assumes wl: "length w = m"
    and m: "length (self_mu_X self) = m"
    and xr: "list_all (\<lambda>r. length r = m) x"
  shows "add_scalar_v (np_dot_mv (sub_rows x (self_mu_X self)) w) (self_mu_Y self)
           = map (spec_mu_pred self w) x"
proof -
  define q where "q = length x"
  define C where "C = (\<lambda>i a. spec_centered self (x ! i) a)"
  have x1_eq: "sub_rows x (self_mu_X self) = map (\<lambda>i. map (\<lambda>a. C i a) [0..<m]) [0..<q]"
    unfolding C_def spec_centered_def q_def by (rule sub_rows_tab [OF m xr])
  have "np_dot_mv (map (\<lambda>i. map (\<lambda>a. C i a) [0..<m]) [0..<q]) w
        = map (\<lambda>i. (\<Sum>a\<leftarrow>[0..<m]. C i a * w ! a)) [0..<q]"
    by (simp add: np_dot_mv_def dot_tab_vec [OF wl])
  then have "add_scalar_v (np_dot_mv (sub_rows x (self_mu_X self)) w) (self_mu_Y self)
        = map (\<lambda>i. spec_mu_pred self w (x ! i)) [0..<length x]"
    by (simp add: x1_eq add_scalar_v_def spec_mu_pred_def m C_def q_def)
  then show ?thesis by (simp only: map_nth_fun)
qed

lemma predict_var_entries:
  assumes beta: "self_beta self = Float b"
    and m: "length (self_mu_X self) = m" and mpos: "0 < m"
    and d: "self_d self \<noteq> []"
    and vl: "length (self_v self) = length (self_d self)"
    and vr: "list_all (\<lambda>r. length r = m) (self_v self)"
    and xr: "list_all (\<lambda>r. length r = m) x"
  shows "map (map (\<lambda>e. 1 / b + e))
           (np_dot_mm (np_dot_mm (sub_rows x (self_mu_X self)) (predict_D self))
              (np_T (sub_rows x (self_mu_X self))))
         = map (\<lambda>xi. map (\<lambda>xj. spec_var_pred self xi xj) x) x"
proof (cases "x = []")
  case True
  then show ?thesis by (simp add: sub_rows_def np_dot_mm_def)
next
  case False
  define q where "q = length x"
  define C where "C = (\<lambda>i a. spec_centered self (x ! i) a)"
  have qpos: "0 < q" using False by (simp add: q_def)
  have D_eq: "predict_D self = map (\<lambda>a. map (\<lambda>b. spec_D self a b) [0..<m]) [0..<m]"
    by (rule predict_D_tab [OF m d vl vr])
  have x1_eq: "sub_rows x (self_mu_X self) = map (\<lambda>i. map (\<lambda>a. C i a) [0..<m]) [0..<q]"
    unfolding C_def spec_centered_def q_def by (rule sub_rows_tab [OF m xr])
  have "np_dot_mm (np_dot_mm (map (\<lambda>i. map (\<lambda>a. C i a) [0..<m]) [0..<q])
                             (map (\<lambda>a. map (\<lambda>b. spec_D self a b) [0..<m]) [0..<m]))
                  (np_T (map (\<lambda>i. map (\<lambda>a. C i a) [0..<m]) [0..<q]))
        = map (\<lambda>i. map (\<lambda>j. (\<Sum>c\<leftarrow>[0..<m]. (\<Sum>a\<leftarrow>[0..<m]. C i a * spec_D self a c) * C j c))
                   [0..<q]) [0..<q]"
    using mpos qpos by (simp add: np_T_tab np_dot_mm_tab)
  also have "\<dots> = map (\<lambda>i. map (\<lambda>j. (\<Sum>a\<leftarrow>[0..<m]. \<Sum>c\<leftarrow>[0..<m]. C i a * spec_D self a c * C j c))
                   [0..<q]) [0..<q]"
    by (simp only: sum_list_swap_mult)
  finally have "map (map (\<lambda>e. 1 / b + e))
             (np_dot_mm (np_dot_mm (sub_rows x (self_mu_X self)) (predict_D self))
                (np_T (sub_rows x (self_mu_X self))))
        = map (\<lambda>i. map (\<lambda>j. spec_var_pred self (x ! i) (x ! j)) [0..<length x]) [0..<length x]"
    by (simp add: x1_eq D_eq spec_var_pred_def beta m C_def q_def)
  also have "\<dots> = map (\<lambda>xi. map (\<lambda>xj. spec_var_pred self xi xj) x) x"
    using map_nth_fun [of "\<lambda>xi. map (\<lambda>xj. spec_var_pred self xi xj) x" x]
    by (simp add: map_nth_fun)
  finally show ?thesis .
qed

text \<open>
  C8. For a fitted model and a query \<open>x\<close> of \<open>q\<close> rows and \<open>m\<close> columns,
  \<^verbatim>\<open>predict\<close> returns the mean \<open>(x - mu_X) w_mu + mu_Y\<close> and the variance
  \<open>1/beta + x\<^sub>c D x\<^sub>c\<^sup>T\<close>, a \<open>q \<times> q\<close> array with the variance of each point on its
  diagonal, where \<open>D = V\<^sup>T diag(1/(beta d\<^sub>i\<^sup>2 + alpha)) V\<close> is \<open>m \<times> m\<close>. A fitted model
  has float precisions and a weight vector of \<open>m\<close> entries; \<^verbatim>\<open>v\<close> has one row per
  singular value, at least one, and \<open>m\<close> columns. The result is stated entry by entry:
  one mean per row of the query, one variance per pair of rows.
\<close>

theorem predict_formula:
  assumes alpha: "self_alpha self = Float a"
    and beta: "self_beta self = Float b"
    and w: "self_w_mu self = WVec w" and wl: "length w = m"
    and m: "length (self_mu_X self) = m" and mpos: "0 < m"
    and d: "self_d self \<noteq> []"
    and vl: "length (self_v self) = length (self_d self)"
    and vr: "list_all (\<lambda>r. length r = m) (self_v self)"
    and xr: "list_all (\<lambda>r. length r = m) x"
  shows "predict x self =
           ((self, x),
            Inr (Arr1 (map (spec_mu_pred self w) x),
                 map (\<lambda>xi. map (\<lambda>xj. spec_var_pred self xi xj) x) x))
         \<and> predict_D self = map (\<lambda>a. map (\<lambda>b. spec_D self a b) [0..<m]) [0..<m]"
proof -
  have mean: "add_scalar_v (np_dot_mv (sub_rows x (self_mu_X self)) w) (self_mu_Y self)
           = map (spec_mu_pred self w) x"
    by (rule predict_mean_entries [OF wl m xr])
  have var: "map (map (\<lambda>e. 1 / b + e))
           (np_dot_mm (np_dot_mm (sub_rows x (self_mu_X self)) (predict_D self))
              (np_T (sub_rows x (self_mu_X self))))
         = map (\<lambda>xi. map (\<lambda>xj. spec_var_pred self xi xj) x) x"
    by (rule predict_var_entries [OF beta m mpos d vl vr xr])
  have "predict x self =
           ((self, x),
            Inr (Arr1 (map (spec_mu_pred self w) x),
                 map (\<lambda>xi. map (\<lambda>xj. spec_var_pred self xi xj) x) x))"
    by (simp add: predict_def Let_def w beta mean var)
  moreover have "predict_D self = map (\<lambda>a. map (\<lambda>b. spec_D self a b) [0..<m]) [0..<m]"
    by (rule predict_D_tab [OF m d vl vr])
  ultimately show ?thesis by simp
qed

theorem predict_formula_witness:
  "self_alpha fitted_ex2 = Float (5 / 2) \<and> self_beta fitted_ex2 = Float (15 / 26)
   \<and> self_w_mu fitted_ex2 = WVec [12 / 25, 0] \<and> length [12 / 25, 0 :: real] = 2
   \<and> length (self_mu_X fitted_ex2) = 2 \<and> (0 :: nat) < 2
   \<and> self_d fitted_ex2 \<noteq> []
   \<and> length (self_v fitted_ex2) = length (self_d fitted_ex2)
   \<and> list_all (\<lambda>r. length r = 2) (self_v fitted_ex2)
   \<and> list_all (\<lambda>r. length r = 2) [[3, 1], [1, 2 :: real]]
   \<and> predict [[3, 1], [1, 2]] fitted_ex2 =
       ((fitted_ex2, [[3, 1], [1, 2]]),
        Inr (Arr1 [49 / 25, 1], [[962 / 375, 26 / 15], [26 / 15, 728 / 375]]))
   \<and> predict_D fitted_ex2 = [[26 / 125, 0], [0, 26 / 125]]"
proof -
  have h: "self_alpha fitted_ex2 = Float (5 / 2)" "self_beta fitted_ex2 = Float (15 / 26)"
    "self_w_mu fitted_ex2 = WVec [12 / 25, 0]" "length [12 / 25, 0 :: real] = 2"
    "length (self_mu_X fitted_ex2) = 2" "(0 :: nat) < 2"
    "self_d fitted_ex2 \<noteq> []"
    "length (self_v fitted_ex2) = length (self_d fitted_ex2)"
    "list_all (\<lambda>r. length r = 2) (self_v fitted_ex2)"
    "list_all (\<lambda>r. length r = 2) [[3, 1], [1, 2 :: real]]"
    by (simp_all add: fitted_ex2_eval)
  have f: "self_mu_X fitted_ex2 = [1, 1]" "self_mu_Y fitted_ex2 = 1"
    by (simp_all add: fitted_ex2_eval)
  have u2: "[0..<2] = [0, Suc 0]"
    by (simp add: numeral_2_eq_2)
  have D: "spec_D fitted_ex2 0 0 = 26 / 125" "spec_D fitted_ex2 0 (Suc 0) = 0"
    "spec_D fitted_ex2 (Suc 0) 0 = 0" "spec_D fitted_ex2 (Suc 0) (Suc 0) = 26 / 125"
    by (simp_all add: spec_D_def fitted_ex2_eval)
  have r: "predict [[3, 1], [1, 2]] fitted_ex2 =
       ((fitted_ex2, [[3, 1], [1, 2]]),
        Inr (Arr1 [49 / 25, 1], [[962 / 375, 26 / 15], [26 / 15, 728 / 375]]))
     \<and> predict_D fitted_ex2 = [[26 / 125, 0], [0, 26 / 125]]"
    using predict_formula [OF h]
    by (simp add: spec_mu_pred_def spec_var_pred_def spec_centered_def D f h u2)
  with h show ?thesis by simp
qed

text \<open>
  The same for the instance a successful \<^verbatim>\<open>fit\<close> returns, from the shapes of the
  instance it was called on.
\<close>

lemma predict_after_fit:
  assumes ok: "snd (fit gY rnd meth max_iter self) = Inr p"
    and m: "length (self_mu_X self) = m" and mpos: "0 < m"
    and d: "self_d self \<noteq> []"
    and vl: "length (self_v self) = length (self_d self)"
    and vr: "list_all (\<lambda>r. length r = m) (self_v self)"
    and xr: "list_all (\<lambda>r. length r = m) x"
  shows "\<exists>w. self_w_mu (fst (fit gY rnd meth max_iter self)) = WVec w \<and>
     predict x (fst (fit gY rnd meth max_iter self)) =
       ((fst (fit gY rnd meth max_iter self), x),
        Inr (Arr1 (map (spec_mu_pred (fst (fit gY rnd meth max_iter self)) w) x),
             map (\<lambda>xi. map (\<lambda>xj. spec_var_pred (fst (fit gY rnd meth max_iter self)) xi xj) x) x))"
proof -
  let ?F = "fst (fit gY rnd meth max_iter self)"
  from fit_fitted [OF ok] obtain a b w where F:
    "self_alpha ?F = Float a" "self_beta ?F = Float b" "self_w_mu ?F = WVec w"
    "length w = ncols (self_v self)"
    "self_mu_X ?F = self_mu_X self" "self_d ?F = self_d self" "self_v ?F = self_v self"
    by blast
  have "self_v self \<noteq> []"
    using d vl by auto
  then have "ncols (self_v self) = m"
    using vr by (cases "self_v self") (simp_all add: ncols_def)
  with F(4) have wl: "length w = m" by simp
  have mF: "length (self_mu_X ?F) = m" and dF: "self_d ?F \<noteq> []"
    and vlF: "length (self_v ?F) = length (self_d ?F)"
    and vrF: "list_all (\<lambda>r. length r = m) (self_v ?F)"
    using m d vl vr F(5) F(6) F(7) by simp_all
  have "predict x ?F =
       ((?F, x), Inr (Arr1 (map (spec_mu_pred ?F w) x),
                      map (\<lambda>xi. map (\<lambda>xj. spec_var_pred ?F xi xj) x) x))"
    by (simp add: predict_def Let_def F(2) F(3)
          predict_mean_entries [OF wl mF xr]
          predict_var_entries [OF F(2) mF mpos dF vlF vrF xr])
  with F(3) show ?thesis by blast
qed

end
